theory Spec2Isabelle
  imports Complex_Main
begin

section \<open>Conventions of the embedding\<close>

text \<open>
  The Python sources compute with \<^verbatim>\<open>float\<close>. Here every float is a \<^typ>\<open>real\<close>:
  the arithmetic is the exact arithmetic that the source's formulas denote, without
  rounding, infinities or NaN. Python's \<^verbatim>\<open>int\<close> is \<^typ>\<open>int\<close>, \<^verbatim>\<open>Optional[T]\<close> is
  \<^typ>\<open>'a option\<close>, a \<^verbatim>\<open>datetime\<close> is a number of microseconds (\<^typ>\<open>int\<close>), a
  \<^verbatim>\<open>Dict\<close> is a map. A method that mutates \<^verbatim>\<open>self\<close> takes the state and returns the
  new one. An exception is a value of \<open>py_error\<close>, returned as \<open>Inl\<close>.

  Record fields are global names in HOL, so a field name that several dataclasses share
  carries a short prefix of its class (\<open>s_segment_id\<close> for
  \<^verbatim>\<open>SegmentStatistics.segment_id\<close>, \<open>r_observation_count\<close> for
  \<^verbatim>\<open>BlendResult.observation_count\<close>, and so on). A leading underscore of a Python name
  is dropped (\<open>compute_learned_weight\<close> for \<^verbatim>\<open>_compute_learned_weight\<close>).
\<close>

datatype py_error = ValueError | ZeroDivisionError | KeyError

section \<open>learning/segment\_stats.py: statistics of one segment\<close>

record SegmentStatistics =
  s_segment_id :: int
  observation_count :: int
  entry_speed_mean_kmh :: real
  entry_speed_std_kmh :: real
  entry_speed_max_kmh :: real
  apex_speed_mean_kmh :: real
  apex_speed_std_kmh :: real
  apex_speed_max_kmh :: real
  exit_speed_mean_kmh :: real
  exit_speed_std_kmh :: real
  exit_speed_max_kmh :: real
  brake_point_mean_m :: real
  brake_point_std_m :: real
  brake_point_latest_m :: real
  max_lateral_g_observed :: real
  max_longitudinal_g_observed :: real
  first_observation :: "int option"
  last_observation :: "int option"
  confidence_weighted_count :: real
  decay_factor :: real

text \<open>\<^verbatim>\<open>SegmentStatistics(segment_id=...)\<close> with every other field at its default.\<close>

definition SegmentStatistics_init :: "int \<Rightarrow> SegmentStatistics" where
  "SegmentStatistics_init sid =
     \<lparr> s_segment_id = sid, observation_count = 0,
       entry_speed_mean_kmh = 0, entry_speed_std_kmh = 0, entry_speed_max_kmh = 0,
       apex_speed_mean_kmh = 0, apex_speed_std_kmh = 0, apex_speed_max_kmh = 0,
       exit_speed_mean_kmh = 0, exit_speed_std_kmh = 0, exit_speed_max_kmh = 0,
       brake_point_mean_m = 0, brake_point_std_m = 0, brake_point_latest_m = 0,
       max_lateral_g_observed = 0, max_longitudinal_g_observed = 0,
       first_observation = None, last_observation = None,
       confidence_weighted_count = 0, decay_factor = 1 \<rparr>"

definition effective_observation_count :: "SegmentStatistics \<Rightarrow> real" where
  "effective_observation_count s = confidence_weighted_count s * decay_factor s"

definition has_sufficient_data :: "SegmentStatistics \<Rightarrow> bool" where
  "has_sufficient_data s \<longleftrightarrow> effective_observation_count s \<ge> 3"

definition get_learned_entry_speed :: "SegmentStatistics \<Rightarrow> real \<Rightarrow> real" where
  "get_learned_entry_speed s physics_ceiling_kmh =
     (if \<not> has_sufficient_data s then physics_ceiling_kmh
      else
        let learned = min (entry_speed_mean_kmh s + 2 * entry_speed_std_kmh s)
                          (entry_speed_max_kmh s)
        in min (learned * decay_factor s) physics_ceiling_kmh)"

definition get_learned_brake_point :: "SegmentStatistics \<Rightarrow> real \<Rightarrow> real" where
  "get_learned_brake_point s physics_minimum_m =
     (if \<not> has_sufficient_data s then physics_minimum_m
      else
        let conservative_learned =
              max (brake_point_latest_m s) (brake_point_mean_m s - brake_point_std_m s)
        in max conservative_learned physics_minimum_m)"

section \<open>learning/blend\_engine.py\<close>

record BlendConfig =
  max_learned_influence :: real
  min_observations_for_learning :: int
  observations_for_full_influence :: int
  learned_safety_margin :: real

definition BlendConfig_default :: BlendConfig where
  "BlendConfig_default =
     \<lparr> max_learned_influence = 0.30, min_observations_for_learning = 3,
       observations_for_full_influence = 20, learned_safety_margin = 0.05 \<rparr>"

record BlendResult =
  blended_value :: real
  physics_ceiling :: real
  learned_value :: "real option"
  learned_weight :: real
  r_observation_count :: int
  was_physics_limited :: bool

text \<open>
  The engine reads one attribute of the envelope it is given: \<^verbatim>\<open>max_speed_kmh\<close> of the
  corner-speed envelope and \<^verbatim>\<open>minimum_brake_distance_m\<close> of the braking envelope. The
  dataclasses of types/envelopes.py declare neither attribute; the tests build the
  corner-speed envelope with \<^verbatim>\<open>segment_id\<close>, \<^verbatim>\<open>max_speed_kmh\<close>, \<^verbatim>\<open>min_speed_kmh\<close> and
  \<^verbatim>\<open>confidence\<close>. The two records below are the envelopes as the engine sees them.
\<close>

record CornerSpeedPhysics =
  p_segment_id :: int
  max_speed_kmh :: real
  p_min_speed_kmh :: real
  p_confidence :: real

record BrakingPhysics =
  b_segment_id :: int
  minimum_brake_distance_m :: real

definition compute_learned_weight :: "BlendConfig \<Rightarrow> SegmentStatistics \<Rightarrow> real" where
  "compute_learned_weight cfg stats =
     (let effective_count = effective_observation_count stats in
      if effective_count < real_of_int (min_observations_for_learning cfg) then 0
      else
        let ramp_range = observations_for_full_influence cfg - min_observations_for_learning cfg;
            weight =
              (if ramp_range \<le> 0 then 1
               else
                 let progress =
                       (effective_count - real_of_int (min_observations_for_learning cfg))
                         / real_of_int ramp_range
                 in min progress 1)
        in weight * max_learned_influence cfg)"

definition blend_corner_speed ::
  "BlendConfig \<Rightarrow> CornerSpeedPhysics \<Rightarrow> SegmentStatistics option \<Rightarrow> BlendResult" where
  "blend_corner_speed cfg physics_envelope segment_stats =
     (let physics_ceiling' = max_speed_kmh physics_envelope in
      case segment_stats of
        None \<Rightarrow>
          \<lparr> blended_value = physics_ceiling', physics_ceiling = physics_ceiling',
            learned_value = None, learned_weight = 0,
            r_observation_count = 0, was_physics_limited = False \<rparr>
      | Some stats \<Rightarrow>
          if \<not> has_sufficient_data stats then
            \<lparr> blended_value = physics_ceiling', physics_ceiling = physics_ceiling',
              learned_value = None, learned_weight = 0,
              r_observation_count = observation_count stats, was_physics_limited = False \<rparr>
          else
            let learned_speed = get_learned_entry_speed stats physics_ceiling';
                learned_weight' = compute_learned_weight cfg stats
            in
              if learned_speed > physics_ceiling' then
                \<lparr> blended_value = physics_ceiling', physics_ceiling = physics_ceiling',
                  learned_value = Some learned_speed, learned_weight = 0,
                  r_observation_count = observation_count stats, was_physics_limited = True \<rparr>
              else
                let blended = physics_ceiling' - (physics_ceiling' - learned_speed) * learned_weight';
                    safety_reduction = (physics_ceiling' - blended) * learned_safety_margin cfg;
                    blended = blended - safety_reduction
                in
                  \<lparr> blended_value = blended, physics_ceiling = physics_ceiling',
                    learned_value = Some learned_speed, learned_weight = learned_weight',
                    r_observation_count = observation_count stats,
                    was_physics_limited = False \<rparr>)"

definition blend_brake_point ::
  "BlendConfig \<Rightarrow> BrakingPhysics \<Rightarrow> SegmentStatistics option \<Rightarrow> BlendResult" where
  "blend_brake_point cfg physics_envelope segment_stats =
     (let physics_minimum = minimum_brake_distance_m physics_envelope in
      case segment_stats of
        None \<Rightarrow>
          \<lparr> blended_value = physics_minimum, physics_ceiling = physics_minimum,
            learned_value = None, learned_weight = 0,
            r_observation_count = 0, was_physics_limited = False \<rparr>
      | Some stats \<Rightarrow>
          if \<not> has_sufficient_data stats then
            \<lparr> blended_value = physics_minimum, physics_ceiling = physics_minimum,
              learned_value = None, learned_weight = 0,
              r_observation_count = observation_count stats, was_physics_limited = False \<rparr>
          else
            let learned_point = get_learned_brake_point stats physics_minimum;
                learned_weight' = compute_learned_weight cfg stats
            in
              if learned_point < physics_minimum then
                \<lparr> blended_value = physics_minimum, physics_ceiling = physics_minimum,
                  learned_value = Some learned_point, learned_weight = 0,
                  r_observation_count = observation_count stats, was_physics_limited = True \<rparr>
              else
                let blended = learned_point - (learned_point - physics_minimum) * learned_weight';
                    safety_addition = (learned_point - blended) * learned_safety_margin cfg;
                    blended = blended + safety_addition
                in
                  \<lparr> blended_value = blended, physics_ceiling = physics_minimum,
                    learned_value = Some learned_point, learned_weight = learned_weight',
                    r_observation_count = observation_count stats,
                    was_physics_limited = False \<rparr>)"

text \<open>
  Lines 135 to 139 of \<^verbatim>\<open>blend_corner_speed\<close> on their own, as a function of the ceiling,
  the learned speed, the weight and the safety margin.
\<close>

definition corner_blend :: "real \<Rightarrow> real \<Rightarrow> real \<Rightarrow> real \<Rightarrow> real" where
  "corner_blend C L w m =
     (let blended = C - (C - L) * w;
          safety_reduction = (C - blended) * m;
          blended = blended - safety_reduction
      in blended)"

section \<open>learning/segment\_stats.py: the store\<close>

record SegmentObservation =
  o_segment_id :: int
  o_timestamp :: int
  entry_speed_kmh :: real
  apex_speed_kmh :: real
  exit_speed_kmh :: real
  min_speed_kmh :: real
  max_lateral_g :: real
  max_longitudinal_g :: real
  brake_point_distance_m :: real
  brake_intensity_peak :: real
  o_max_steering_rate_deg_s :: real
  was_clean :: bool
  was_full_commitment :: bool
  o_confidence :: real

text \<open>
  \<open>stats_dict\<close> is \<^verbatim>\<open>self._stats\<close>, \<open>observations_dict\<close> is \<^verbatim>\<open>self._observations\<close> and
  \<open>max_observations\<close> is \<^verbatim>\<open>self._max_observations\<close>.
\<close>

record SegmentStatsStore =
  stats_dict :: "int \<rightharpoonup> SegmentStatistics"
  observations_dict :: "int \<rightharpoonup> SegmentObservation list"
  max_observations :: int

definition SegmentStatsStore_init :: "int \<Rightarrow> SegmentStatsStore" where
  "SegmentStatsStore_init max_observations_per_segment =
     \<lparr> stats_dict = Map.empty, observations_dict = Map.empty,
       max_observations = max_observations_per_segment \<rparr>"

text \<open>The numpy reductions, on the non-empty arrays \<open>update_statistics\<close> builds.\<close>

definition np_sum :: "real list \<Rightarrow> real" where
  "np_sum xs = sum_list xs"

definition np_mean :: "real list \<Rightarrow> real" where
  "np_mean xs = sum_list xs / real (length xs)"

definition np_std :: "real list \<Rightarrow> real" where
  "np_std xs = sqrt (np_mean (map (\<lambda>x. \<bar>x - np_mean xs\<bar>\<^sup>2) xs))"

definition np_max :: "real list \<Rightarrow> real" where
  "np_max xs = Max (set xs)"

definition np_min :: "real list \<Rightarrow> real" where
  "np_min xs = Min (set xs)"

definition update_statistics :: "SegmentStatsStore \<Rightarrow> int \<Rightarrow> py_error + SegmentStatsStore" where
  "update_statistics store segment_id =
     (let observations = (case observations_dict store segment_id of None \<Rightarrow> [] | Some l \<Rightarrow> l) in
      if observations = [] then Inr store
      else
        case stats_dict store segment_id of
          None \<Rightarrow> Inl KeyError
        | Some stats \<Rightarrow>
            let entry_speeds = map entry_speed_kmh observations;
                apex_speeds = map apex_speed_kmh observations;
                exit_speeds = map exit_speed_kmh observations;
                brake_points = map brake_point_distance_m observations;
                lateral_gs = map max_lateral_g observations;
                long_gs = map max_longitudinal_g observations;
                confidences = map o_confidence observations;
                stats = stats
                  \<lparr> observation_count := int (length observations),
                    confidence_weighted_count := np_sum confidences,
                    entry_speed_mean_kmh := np_mean entry_speeds,
                    entry_speed_std_kmh := np_std entry_speeds,
                    entry_speed_max_kmh := np_max entry_speeds,
                    apex_speed_mean_kmh := np_mean apex_speeds,
                    apex_speed_std_kmh := np_std apex_speeds,
                    apex_speed_max_kmh := np_max apex_speeds,
                    exit_speed_mean_kmh := np_mean exit_speeds,
                    exit_speed_std_kmh := np_std exit_speeds,
                    exit_speed_max_kmh := np_max exit_speeds,
                    brake_point_mean_m := np_mean brake_points,
                    brake_point_std_m := np_std brake_points,
                    brake_point_latest_m := np_min brake_points,
                    max_lateral_g_observed := np_max lateral_gs,
                    max_longitudinal_g_observed := np_max long_gs,
                    first_observation := Some (o_timestamp (hd observations)),
                    last_observation := Some (o_timestamp (last observations)) \<rparr>
            in Inr (store \<lparr> stats_dict := (stats_dict store)(segment_id \<mapsto> stats) \<rparr>))"

definition add_observation ::
  "SegmentStatsStore \<Rightarrow> SegmentObservation \<Rightarrow> py_error + SegmentStatsStore" where
  "add_observation store observation =
     (if \<not> was_clean observation then Inr store
      else if o_confidence observation < 0.7 then Inr store
      else
        let segment_id = o_segment_id observation;
            store =
              (if observations_dict store segment_id = None then
                 store \<lparr> observations_dict := (observations_dict store)(segment_id \<mapsto> []),
                         stats_dict := (stats_dict store)
                                         (segment_id \<mapsto> SegmentStatistics_init segment_id) \<rparr>
               else store);
            obs_list = (case observations_dict store segment_id of None \<Rightarrow> [] | Some l \<Rightarrow> l)
                         @ [observation];
            obs_list = (if int (length obs_list) > max_observations store
                        then tl obs_list else obs_list);
            store = store \<lparr> observations_dict :=
                              (observations_dict store)(segment_id \<mapsto> obs_list) \<rparr>
        in update_statistics store segment_id)"

text \<open>A caller feeding a sequence of observations; the first exception ends the sequence.\<close>

fun add_observations ::
  "SegmentStatsStore \<Rightarrow> SegmentObservation list \<Rightarrow> py_error + SegmentStatsStore" where
  "add_observations store [] = Inr store"
| "add_observations store (observation # rest) =
     (case add_observation store observation of
        Inl e \<Rightarrow> Inl e
      | Inr store' \<Rightarrow> add_observations store' rest)"

definition get_statistics :: "SegmentStatsStore \<Rightarrow> int \<Rightarrow> SegmentStatistics option" where
  "get_statistics store segment_id = stats_dict store segment_id"

definition apply_decay :: "SegmentStatsStore \<Rightarrow> int \<Rightarrow> real \<Rightarrow> SegmentStatsStore" where
  "apply_decay store segment_id factor =
     (case stats_dict store segment_id of
        None \<Rightarrow> store
      | Some stats \<Rightarrow>
          store \<lparr> stats_dict := (stats_dict store)
                                  (segment_id \<mapsto> stats \<lparr> decay_factor := factor \<rparr>) \<rparr>)"

definition apply_global_decay :: "SegmentStatsStore \<Rightarrow> real \<Rightarrow> SegmentStatsStore" where
  "apply_global_decay store factor =
     store \<lparr> stats_dict :=
               (\<lambda>segment_id. map_option (\<lambda>stats. stats \<lparr> decay_factor := factor \<rparr>)
                                          (stats_dict store segment_id)) \<rparr>"

section \<open>learning/decay\_manager.py\<close>

datatype DecayTrigger =
    NONE
  | WEATHER_CHANGE
  | TEMPERATURE_CHANGE
  | SURFACE_CHANGE
  | NEW_SESSION
  | LONG_BREAK
  | TIRE_CHANGE
  | VEHICLE_CHANGE
  | MANUAL_RESET
  | DATA_AGE

record DecayConfig =
  max_data_age_hours :: real
  half_life_hours :: real
  session_break_threshold_minutes :: real
  session_break_decay_factor :: real
  weather_change_decay :: real
  temperature_change_per_10c :: real
  surface_change_decay :: real
  tire_change_decay :: real
  vehicle_change_decay :: real
  min_decay_factor :: real

definition DecayConfig_default :: DecayConfig where
  "DecayConfig_default =
     \<lparr> max_data_age_hours = 24, half_life_hours = 8,
       session_break_threshold_minutes = 60, session_break_decay_factor = 0.5,
       weather_change_decay = 0, temperature_change_per_10c = 0.2,
       surface_change_decay = 0, tire_change_decay = 0.3,
       vehicle_change_decay = 0, min_decay_factor = 0.1 \<rparr>"

text \<open>
  \<open>last_activity\<close> is a \<^verbatim>\<open>datetime\<close>, in microseconds; \<^verbatim>\<open>__post_init__\<close> replaces a
  missing one by the current time, so a constructed \<^verbatim>\<open>ConditionState\<close> always has one
  (and a \<^verbatim>\<open>datetime\<close> is always true in \<^verbatim>\<open>if prev.last_activity\<close>).
\<close>

record ConditionState =
  is_dry :: bool
  ambient_temp_c :: real
  track_temp_c :: real
  surface_type :: string
  surface_condition :: string
  tire_compound :: string
  vehicle_id :: string
  last_activity :: int

text \<open>
  \<open>dm_config\<close> is \<^verbatim>\<open>self.config\<close>; \<open>dm_stats\<close> is the store the manager was given
  (\<^verbatim>\<open>self.stats\<close>, possibly \<^verbatim>\<open>None\<close>): the
  manager's writes to the store are writes to this field. \<open>previous_conditions\<close> and
  \<open>decay_history\<close> are \<^verbatim>\<open>self._previous_conditions\<close> and \<^verbatim>\<open>self._decay_history\<close>.
\<close>

record DecayManager =
  dm_config :: DecayConfig
  dm_stats :: "SegmentStatsStore option"
  previous_conditions :: "ConditionState option"
  decay_history :: "DecayTrigger \<rightharpoonup> int"

text \<open>
  \<^verbatim>\<open>timedelta(minutes=m)\<close> in microseconds: the constructor rounds to the nearest
  microsecond, halves to the even one.
\<close>

definition round_half_even :: "real \<Rightarrow> int" where
  "round_half_even x =
     (let f = \<lfloor>x\<rfloor>; d = x - of_int f in
      if d < 1 / 2 then f
      else if d > 1 / 2 then f + 1
      else if even f then f else f + 1)"

definition timedelta_minutes :: "real \<Rightarrow> int" where
  "timedelta_minutes m = round_half_even (m * 60000000)"

text \<open>
  The dictionary \<^verbatim>\<open>triggered_decays\<close> is a list of pairs in insertion order; every
  trigger is inserted at most once, so \<^verbatim>\<open>decays.values()\<close> is the list of second
  components.
\<close>

definition combine_decay_factors :: "DecayConfig \<Rightarrow> (DecayTrigger \<times> real) list \<Rightarrow> real" where
  "combine_decay_factors cfg decays =
     (if decays = [] then 1
      else
        let combined = fold (\<lambda>factor combined. combined * factor) (map snd decays) 1
        in max combined (min_decay_factor cfg))"

text \<open>
  \<open>now\<close> is what \<^verbatim>\<open>datetime.now()\<close> returns while the history is written (one reading
  for the whole loop). The result is the returned dictionary and the manager afterwards.
\<close>

definition update_conditions ::
  "DecayManager \<Rightarrow> ConditionState \<Rightarrow> int \<Rightarrow> (DecayTrigger \<times> real) list \<times> DecayManager" where
  "update_conditions mgr current_conditions now =
     (case previous_conditions mgr of
        None \<Rightarrow> ([], mgr \<lparr> previous_conditions := Some current_conditions \<rparr>)
      | Some prev \<Rightarrow>
          let cfg = dm_config mgr;
              weather =
                (if is_dry current_conditions \<noteq> is_dry prev
                 then [(WEATHER_CHANGE, weather_change_decay cfg)] else []);
              temp_delta = \<bar>track_temp_c current_conditions - track_temp_c prev\<bar>;
              temperature =
                (if temp_delta \<ge> 10 then
                   let decay_amount =
                         of_int \<lfloor>temp_delta / 10\<rfloor> * temperature_change_per_10c cfg;
                       decay_factor' = max 0 (1 - decay_amount)
                   in [(TEMPERATURE_CHANGE, decay_factor')]
                 else []);
              surface =
                (if surface_type current_conditions \<noteq> surface_type prev
                    \<or> surface_condition current_conditions \<noteq> surface_condition prev
                 then [(SURFACE_CHANGE, surface_change_decay cfg)] else []);
              break_duration = last_activity current_conditions - last_activity prev;
              long_break =
                (if break_duration > timedelta_minutes (session_break_threshold_minutes cfg)
                 then [(LONG_BREAK, session_break_decay_factor cfg)] else []);
              tire =
                (if tire_compound current_conditions \<noteq> tire_compound prev
                 then [(TIRE_CHANGE, tire_change_decay cfg)] else []);
              vehicle =
                (if vehicle_id current_conditions \<noteq> [] \<and> vehicle_id prev \<noteq> []
                    \<and> vehicle_id current_conditions \<noteq> vehicle_id prev
                 then [(VEHICLE_CHANGE, vehicle_change_decay cfg)] else []);
              triggered_decays = weather @ temperature @ surface @ long_break @ tire @ vehicle;
              stats' =
                (if triggered_decays \<noteq> [] then
                   (case dm_stats mgr of
                      None \<Rightarrow> None
                    | Some store \<Rightarrow>
                        Some (apply_global_decay store
                                (combine_decay_factors cfg triggered_decays)))
                 else dm_stats mgr);
              history' =
                fold (\<lambda>(trigger, factor) h. h(trigger \<mapsto> now)) triggered_decays
                     (decay_history mgr)
          in (triggered_decays,
              mgr \<lparr> dm_stats := stats', decay_history := history',
                    previous_conditions := Some current_conditions \<rparr>))"

section \<open>types/envelopes.py and types/confidence.py\<close>

text \<open>
  \<open>pc_value\<close>, \<open>pc_unit\<close> and \<open>pc_source\<close> are the fields \<^verbatim>\<open>value\<close>, \<^verbatim>\<open>unit\<close> and
  \<^verbatim>\<open>source\<close> of \<^verbatim>\<open>PhysicsCeiling\<close>; its constructor raises on a negative value.
\<close>

record PhysicsCeiling =
  pc_value :: real
  pc_unit :: string
  pc_source :: string

definition PhysicsCeiling_init :: "real \<Rightarrow> string \<Rightarrow> string \<Rightarrow> py_error + PhysicsCeiling" where
  "PhysicsCeiling_init v u s =
     (if v < 0 then Inl ValueError
      else Inr \<lparr> pc_value = v, pc_unit = u, pc_source = s \<rparr>)"

record Confidence =
  c_value :: real
  c_source :: string
  c_timestamp_ms :: int
  degradation_reason :: "string option"

definition Confidence_post_init :: "Confidence \<Rightarrow> Confidence" where
  "Confidence_post_init c = c \<lparr> c_value := max 0 (min 1 (c_value c)) \<rparr>"

text \<open>
  \<open>corner_radius_m\<close> defaults to \<^verbatim>\<open>float('inf')\<close> in the source; \<open>None\<close> stands for that
  value here. No function below computes with the radius.
\<close>

record CornerSpeedEnvelope =
  segment_id :: int
  distance_start_m :: real
  distance_end_m :: real
  physics_ceiling_kmh :: PhysicsCeiling
  conservative_speed_kmh :: real
  learned_speed_kmh :: "real option"
  learning_confidence :: real
  envelope_speed_kmh :: real
  corner_radius_m :: "real option"
  curvature_1_per_m :: real
  confidence :: Confidence

text \<open>
  \<^verbatim>\<open>__post_init__\<close>: every \<^verbatim>\<open>CornerSpeedEnvelope(...)\<close> call of the source is
  \<open>CornerSpeedEnvelope_post_init\<close> of the record of its arguments. The class is frozen, so
  the result is never written again.
\<close>

definition CornerSpeedEnvelope_post_init :: "CornerSpeedEnvelope \<Rightarrow> CornerSpeedEnvelope" where
  "CornerSpeedEnvelope_post_init e =
     (if envelope_speed_kmh e > pc_value (physics_ceiling_kmh e)
      then e \<lparr> envelope_speed_kmh := pc_value (physics_ceiling_kmh e) \<rparr>
      else e)"

definition blend_with_learned ::
  "CornerSpeedEnvelope \<Rightarrow> real \<Rightarrow> real \<Rightarrow> CornerSpeedEnvelope" where
  "blend_with_learned e learned_speed blend_weight =
     (let weight = max 0 (min 0.3 blend_weight);
          blended = (1 - weight) * conservative_speed_kmh e + weight * learned_speed;
          final = min blended (pc_value (physics_ceiling_kmh e))
      in CornerSpeedEnvelope_post_init
           \<lparr> segment_id = segment_id e,
             distance_start_m = distance_start_m e,
             distance_end_m = distance_end_m e,
             physics_ceiling_kmh = physics_ceiling_kmh e,
             conservative_speed_kmh = conservative_speed_kmh e,
             learned_speed_kmh = Some learned_speed,
             learning_confidence = blend_weight,
             envelope_speed_kmh = final,
             corner_radius_m = corner_radius_m e,
             curvature_1_per_m = curvature_1_per_m e,
             confidence = confidence e \<rparr>)"

record BrakingEnvelope =
  be_segment_id :: int
  target_speed_kmh :: real
  max_deceleration_g :: PhysicsCeiling
  conservative_decel_g :: real
  brake_distance_m :: real
  safety_distance_m :: real
  be_confidence :: Confidence

record SteeringEnvelope =
  speed_kmh :: real
  max_steering_rate_deg_s :: real
  normal_intensity :: real
  warning_intensity :: real
  limit_intensity :: real
  expected_yaw_rate_dps :: real
  yaw_rate_tolerance_dps :: real

record CombinedGripEnvelope =
  max_total_grip :: PhysicsCeiling
  longitudinal_grip_used :: real
  lateral_grip_used :: real
  stability_margin :: real

definition total_grip_used :: "CombinedGripEnvelope \<Rightarrow> real" where
  "total_grip_used e = sqrt ((longitudinal_grip_used e)\<^sup>2 + (lateral_grip_used e)\<^sup>2)"

record SegmentEnvelope =
  se_segment_id :: int
  se_distance_start_m :: real
  se_distance_end_m :: real
  corner_speed :: "CornerSpeedEnvelope option"
  braking :: "BrakingEnvelope option"
  steering :: "SteeringEnvelope option"
  combined_grip :: "CombinedGripEnvelope option"
  se_confidence :: Confidence

section \<open>physics/envelope\_manager.py\<close>

text \<open>
  The state of the manager that \<^verbatim>\<open>update_from_learning\<close> reads and writes:
  \<open>segment_envelopes\<close> is \<^verbatim>\<open>self._segment_envelopes\<close>, \<open>track_length_m\<close> is
  \<^verbatim>\<open>self._track_length_m\<close>. The configuration and the three calculators are not touched
  by it.
\<close>

record EnvelopeManager =
  segment_envelopes :: "int \<rightharpoonup> SegmentEnvelope"
  track_length_m :: real

definition update_from_learning ::
  "EnvelopeManager \<Rightarrow> int \<Rightarrow> real \<Rightarrow> real \<Rightarrow> bool \<times> EnvelopeManager" where
  "update_from_learning mgr sid learned_speed blend_weight =
     (case segment_envelopes mgr sid of
        None \<Rightarrow> (False, mgr)
      | Some envelope \<Rightarrow>
          (case corner_speed envelope of
             None \<Rightarrow> (False, mgr)
           | Some cs \<Rightarrow>
               let new_corner_speed = blend_with_learned cs learned_speed blend_weight;
                   new_envelope =
                     \<lparr> se_segment_id = se_segment_id envelope,
                       se_distance_start_m = se_distance_start_m envelope,
                       se_distance_end_m = se_distance_end_m envelope,
                       corner_speed = Some new_corner_speed,
                       braking = braking envelope,
                       steering = steering envelope,
                       combined_grip = combined_grip envelope,
                       se_confidence = se_confidence envelope \<rparr>
               in (True, mgr \<lparr> segment_envelopes :=
                                  (segment_envelopes mgr)(sid \<mapsto> new_envelope) \<rparr>)))"

section \<open>physics/combined\_grip.py\<close>

record FrictionCircleConfig =
  max_grip_normalized :: real
  longitudinal_factor :: real
  lateral_factor :: real
  fc_stability_margin :: real
  warning_threshold :: real
  critical_threshold :: real

definition FrictionCircleConfig_default :: FrictionCircleConfig where
  "FrictionCircleConfig_default =
     \<lparr> max_grip_normalized = 1, longitudinal_factor = 1, lateral_factor = 1,
       fc_stability_margin = 0.15, warning_threshold = 0.75, critical_threshold = 0.90 \<rparr>"

text \<open>
  A float division by zero raises \<^verbatim>\<open>ZeroDivisionError\<close> in Python. The local \<^verbatim>\<open>total\<close>
  is computed and not used: the returned envelope holds \<^verbatim>\<open>fx\<close> and \<^verbatim>\<open>fy\<close>.
\<close>

definition compute_grip_usage ::
  "FrictionCircleConfig \<Rightarrow> real \<Rightarrow> real \<Rightarrow> real \<Rightarrow> real \<Rightarrow> py_error + CombinedGripEnvelope" where
  "compute_grip_usage cfg longitudinal_g lateral_g max_longitudinal_g' max_lateral_g' =
     (if max_longitudinal_g' = 0 then Inl ZeroDivisionError
      else
        let fx = \<bar>longitudinal_g\<bar> / max_longitudinal_g' in
        if max_lateral_g' = 0 then Inl ZeroDivisionError
        else
          let fy = \<bar>lateral_g\<bar> / max_lateral_g' in
          if longitudinal_factor cfg = 0 then Inl ZeroDivisionError
          else
            let fx_shaped = fx / longitudinal_factor cfg in
            if lateral_factor cfg = 0 then Inl ZeroDivisionError
            else
              let fy_shaped = fy / lateral_factor cfg;
                  total = sqrt (fx_shaped\<^sup>2 + fy_shaped\<^sup>2)
              in
                case PhysicsCeiling_init (max_grip_normalized cfg) ''normalized''
                       ''friction_circle'' of
                  Inl e \<Rightarrow> Inl e
                | Inr grip_ceiling \<Rightarrow>
                    Inr \<lparr> max_total_grip = grip_ceiling,
                          longitudinal_grip_used = fx,
                          lateral_grip_used = fy,
                          stability_margin = fc_stability_margin cfg \<rparr>)"

text \<open>
  The total the specification describes: the Euclidean norm of the two normalised grip
  fractions, each divided by its shape factor. It follows the specification's words, to be
  compared with \<open>total_grip_used\<close> of the envelope that \<open>compute_grip_usage\<close> returns.
\<close>

definition spec_shaped_total :: "FrictionCircleConfig \<Rightarrow> real \<Rightarrow> real \<Rightarrow> real \<Rightarrow> real \<Rightarrow> real" where
  "spec_shaped_total cfg longitudinal_g lateral_g max_longitudinal_g' max_lateral_g' =
     (let fx_shaped = (\<bar>longitudinal_g\<bar> / max_longitudinal_g') / longitudinal_factor cfg;
          fy_shaped = (\<bar>lateral_g\<bar> / max_lateral_g') / lateral_factor cfg
      in sqrt (fx_shaped\<^sup>2 + fy_shaped\<^sup>2))"

section \<open>Concrete inputs\<close>

text \<open>
  The corner of the specification's example: ceiling 100 km/h, learned mean 85, standard
  deviation 2, observed maximum 90, 50 observations.
\<close>

definition env_100 :: CornerSpeedPhysics where
  "env_100 = \<lparr> p_segment_id = 1, max_speed_kmh = 100, p_min_speed_kmh = 50,
               p_confidence = 0.95 \<rparr>"

definition stats_85 :: SegmentStatistics where
  "stats_85 = (SegmentStatistics_init 1)
      \<lparr> observation_count := 50, entry_speed_mean_kmh := 85, entry_speed_std_kmh := 2,
        entry_speed_max_kmh := 90, confidence_weighted_count := 50 \<rparr>"

text \<open>A single observation: too few for learning.\<close>

definition stats_sparse :: SegmentStatistics where
  "stats_sparse = (SegmentStatistics_init 1)
      \<lparr> observation_count := 1, entry_speed_mean_kmh := 120,
        confidence_weighted_count := 1 \<rparr>"

text \<open>
  The braking example of the specification: physics minimum 80 m, the driver's brake
  points at 60 m (ten observations, all at 60 m).
\<close>

definition benv_80 :: BrakingPhysics where
  "benv_80 = \<lparr> b_segment_id = 1, minimum_brake_distance_m = 80 \<rparr>"

definition stats_60 :: SegmentStatistics where
  "stats_60 = (SegmentStatistics_init 1)
      \<lparr> observation_count := 10, brake_point_mean_m := 60, brake_point_std_m := 0,
        brake_point_latest_m := 60, confidence_weighted_count := 10 \<rparr>"

text \<open>
  Brake points earlier than the physics minimum of 80 m: latest observed point 120 m, mean
  130 m, standard deviation 5 m, ten observations.
\<close>

definition stats_125 :: SegmentStatistics where
  "stats_125 = (SegmentStatistics_init 1)
      \<lparr> observation_count := 10, brake_point_mean_m := 130, brake_point_std_m := 5,
        brake_point_latest_m := 120, confidence_weighted_count := 10 \<rparr>"

text \<open>A store that holds the statistics of segment 1 and no window.\<close>

definition store_one :: SegmentStatsStore where
  "store_one = \<lparr> stats_dict = [1 \<mapsto> stats_85], observations_dict = Map.empty,
                 max_observations = 100 \<rparr>"

text \<open>
  Two condition snapshots one second apart: dry on street tyres, then wet on rain tyres;
  and a manager with the default configuration that has seen the first.
\<close>

definition cond_dry :: ConditionState where
  "cond_dry = \<lparr> is_dry = True, ambient_temp_c = 20, track_temp_c = 30,
                surface_type = ''asphalt'', surface_condition = ''normal'',
                tire_compound = ''street'', vehicle_id = '''', last_activity = 0 \<rparr>"

definition cond_wet_new_tires :: ConditionState where
  "cond_wet_new_tires = cond_dry \<lparr> is_dry := False, tire_compound := ''rain'',
                                   last_activity := 1000000 \<rparr>"

definition manager_dry :: DecayManager where
  "manager_dry = \<lparr> dm_config = DecayConfig_default, dm_stats = Some store_one,
                   previous_conditions = Some cond_dry, decay_history = Map.empty \<rparr>"

text \<open>
  An envelope manager with one segment, whose corner envelope has ceiling 100 km/h and
  conservative speed 85 km/h.
\<close>

definition ceiling_100 :: PhysicsCeiling where
  "ceiling_100 = \<lparr> pc_value = 100, pc_unit = ''km/h'', pc_source = ''friction_limit'' \<rparr>"

definition corner_env :: CornerSpeedEnvelope where
  "corner_env = CornerSpeedEnvelope_post_init
     \<lparr> segment_id = 1, distance_start_m = 0, distance_end_m = 50,
       physics_ceiling_kmh = ceiling_100, conservative_speed_kmh = 85,
       learned_speed_kmh = None, learning_confidence = 0, envelope_speed_kmh = 85,
       corner_radius_m = Some 50, curvature_1_per_m = 0.02,
       confidence = Confidence_post_init
         \<lparr> c_value = 0.9, c_source = ''corner_speed'', c_timestamp_ms = 0,
           degradation_reason = None \<rparr> \<rparr>"

definition segment_env :: SegmentEnvelope where
  "segment_env =
     \<lparr> se_segment_id = 1, se_distance_start_m = 0, se_distance_end_m = 50,
       corner_speed = Some corner_env, braking = None, steering = None,
       combined_grip = None,
       se_confidence = Confidence_post_init
         \<lparr> c_value = 0.9, c_source = ''envelope'', c_timestamp_ms = 0,
           degradation_reason = None \<rparr> \<rparr>"

definition env_manager :: EnvelopeManager where
  "env_manager = \<lparr> segment_envelopes = [1 \<mapsto> segment_env], track_length_m = 50 \<rparr>"

text \<open>A friction-circle configuration whose longitudinal shape factor is one half.\<close>

definition fc_config_half :: FrictionCircleConfig where
  "fc_config_half = FrictionCircleConfig_default \<lparr> longitudinal_factor := 0.5 \<rparr>"

text \<open>
  The observations of the tests: a dirty one, a clean one of confidence 0.5, and a clean
  one of confidence 0.9.
\<close>

definition obs_dirty :: SegmentObservation where
  "obs_dirty = \<lparr> o_segment_id = 1, o_timestamp = 0, entry_speed_kmh = 100,
       apex_speed_kmh = 80, exit_speed_kmh = 90, min_speed_kmh = 75, max_lateral_g = 0.8,
       max_longitudinal_g = 0.5, brake_point_distance_m = 50, brake_intensity_peak = 0.7,
       o_max_steering_rate_deg_s = 50, was_clean = False, was_full_commitment = False,
       o_confidence = 0.9 \<rparr>"

definition obs_low_confidence :: SegmentObservation where
  "obs_low_confidence = obs_dirty \<lparr> was_clean := True, o_confidence := 0.5 \<rparr>"

definition obs_clean :: SegmentObservation where
  "obs_clean = obs_dirty \<lparr> was_clean := True \<rparr>"

section \<open>Properties of the blend engine\<close>

lemma compute_learned_weight_nonneg:
  assumes "0 \<le> max_learned_influence cfg"
  shows "0 \<le> compute_learned_weight cfg s"
proof (cases "effective_observation_count s < real_of_int (min_observations_for_learning cfg)")
  case True
  then show ?thesis by (simp add: compute_learned_weight_def)
next
  case below: False
  show ?thesis
  proof (cases "observations_for_full_influence cfg - min_observations_for_learning cfg \<le> 0")
    case True
    with below assms show ?thesis by (simp add: compute_learned_weight_def Let_def)
  next
    case False
    then have pos: "0 < real_of_int (observations_for_full_influence cfg
                        - min_observations_for_learning cfg)" by simp
    from below have num: "0 \<le> effective_observation_count s
                        - real_of_int (min_observations_for_learning cfg)" by simp
    have "0 \<le> (effective_observation_count s - real_of_int (min_observations_for_learning cfg))
               / real_of_int (observations_for_full_influence cfg
                        - min_observations_for_learning cfg)"
      using num pos by (rule divide_nonneg_pos)
    then have "0 \<le> min ((effective_observation_count s
                  - real_of_int (min_observations_for_learning cfg))
               / real_of_int (observations_for_full_influence cfg
                        - min_observations_for_learning cfg)) 1" by simp
    with below False assms show ?thesis
      by (simp add: compute_learned_weight_def Let_def)
  qed
qed

text \<open>
  Claim C5. When the segment statistics are absent, or their effective observation count
  is below 3, both \<open>blend_corner_speed\<close> and \<open>blend_brake_point\<close> return the physics value
  itself as the blended value, with learned weight 0 and no learned value.
\<close>

theorem C5_no_data_returns_physics:
  assumes "segment_stats = None
           \<or> (\<exists>s. segment_stats = Some s \<and> effective_observation_count s < 3)"
  shows "blended_value (blend_corner_speed cfg env segment_stats) = max_speed_kmh env
       \<and> learned_weight (blend_corner_speed cfg env segment_stats) = 0
       \<and> learned_value (blend_corner_speed cfg env segment_stats) = None
       \<and> blended_value (blend_brake_point cfg benv segment_stats) = minimum_brake_distance_m benv
       \<and> learned_weight (blend_brake_point cfg benv segment_stats) = 0
       \<and> learned_value (blend_brake_point cfg benv segment_stats) = None"
  using assms
  by (auto simp: blend_corner_speed_def blend_brake_point_def has_sufficient_data_def Let_def)

theorem C5_no_data_returns_physics_witness:
  "effective_observation_count stats_sparse < 3
   \<and> blended_value (blend_corner_speed BlendConfig_default env_100 None) = 100
   \<and> learned_weight (blend_corner_speed BlendConfig_default env_100 None) = 0
   \<and> blended_value (blend_brake_point BlendConfig_default benv_80 (Some stats_sparse)) = 80
   \<and> learned_value (blend_brake_point BlendConfig_default benv_80 (Some stats_sparse)) = None"
proof -
  have c: "effective_observation_count stats_sparse < 3"
    by (simp add: effective_observation_count_def stats_sparse_def SegmentStatistics_init_def)
  have a: "(None :: SegmentStatistics option) = None
           \<or> (\<exists>s. (None :: SegmentStatistics option) = Some s
                  \<and> effective_observation_count s < 3)"
    by simp
  have b: "Some stats_sparse = None
           \<or> (\<exists>s. Some stats_sparse = Some s \<and> effective_observation_count s < 3)"
    using c by blast
  show ?thesis
    using C5_no_data_returns_physics [OF a, of BlendConfig_default env_100 benv_80]
      C5_no_data_returns_physics [OF b, of BlendConfig_default env_100 benv_80] c
    by (simp add: env_100_def benv_80_def)
qed

subsection \<open>The corner-speed blend stays under the ceiling\<close>

lemma corner_blend_eq: "corner_blend C L w m = C - (C - L) * (w * (1 + m))"
  by (simp add: corner_blend_def Let_def algebra_simps)

lemma get_learned_entry_speed_le: "get_learned_entry_speed s C \<le> C"
  by (simp add: get_learned_entry_speed_def Let_def)

lemma get_learned_entry_speed_less_sufficient:
  "get_learned_entry_speed s C < C \<Longrightarrow> has_sufficient_data s"
  by (simp add: get_learned_entry_speed_def split: if_splits)

text \<open>
  With sufficient data the engine's result is \<open>corner_blend\<close> of the ceiling, the learned
  speed of the store's accessor, the computed weight and the configured margin: the
  defence-in-depth branch is not taken, because the accessor never exceeds the ceiling.
\<close>

lemma blend_corner_speed_blended:
  assumes "has_sufficient_data s"
  shows "blended_value (blend_corner_speed cfg env (Some s)) =
         corner_blend (max_speed_kmh env) (get_learned_entry_speed s (max_speed_kmh env))
           (compute_learned_weight cfg s) (learned_safety_margin cfg)"
proof -
  have "\<not> get_learned_entry_speed s (max_speed_kmh env) > max_speed_kmh env"
    by (simp add: get_learned_entry_speed_def Let_def)
  with assms show ?thesis
    by (simp add: blend_corner_speed_def corner_blend_def Let_def)
qed

lemma corner_blend_le:
  assumes "L \<le> C" "0 \<le> w" "0 \<le> m"
  shows "corner_blend C L w m \<le> C"
proof -
  have "0 \<le> (C - L) * (w * (1 + m))" using assms by simp
  then show ?thesis by (simp add: corner_blend_eq)
qed

lemma corner_blend_less:
  assumes "L < C" "0 < w" "0 \<le> m"
  shows "corner_blend C L w m < C"
proof -
  have "0 < w * (1 + m)" using assms by (simp add: mult_pos_pos add_pos_nonneg)
  with assms have "0 < (C - L) * (w * (1 + m))" by simp
  then show ?thesis by (simp add: corner_blend_eq)
qed

lemma blend_corner_speed_le:
  assumes "0 \<le> max_learned_influence cfg" "0 \<le> learned_safety_margin cfg"
  shows "blended_value (blend_corner_speed cfg env stats) \<le> max_speed_kmh env"
proof (cases stats)
  case None
  then show ?thesis by (simp add: blend_corner_speed_def Let_def)
next
  case (Some s)
  show ?thesis
  proof (cases "has_sufficient_data s")
    case True
    have "corner_blend (max_speed_kmh env) (get_learned_entry_speed s (max_speed_kmh env))
           (compute_learned_weight cfg s) (learned_safety_margin cfg) \<le> max_speed_kmh env"
      using get_learned_entry_speed_le compute_learned_weight_nonneg [OF assms(1)] assms(2)
      by (rule corner_blend_le)
    with True Some show ?thesis by (simp add: blend_corner_speed_blended)
  next
    case False
    with Some show ?thesis by (simp add: blend_corner_speed_def Let_def)
  qed
qed

lemma blend_corner_speed_less:
  assumes "0 \<le> learned_safety_margin cfg"
    and "0 < compute_learned_weight cfg s"
    and "get_learned_entry_speed s (max_speed_kmh env) < max_speed_kmh env"
  shows "blended_value (blend_corner_speed cfg env (Some s)) < max_speed_kmh env"
proof -
  from assms(3) have suff: "has_sufficient_data s"
    by (rule get_learned_entry_speed_less_sufficient)
  have "corner_blend (max_speed_kmh env) (get_learned_entry_speed s (max_speed_kmh env))
           (compute_learned_weight cfg s) (learned_safety_margin cfg) < max_speed_kmh env"
    using assms(3) assms(2) assms(1) by (rule corner_blend_less)
  with suff show ?thesis by (simp add: blend_corner_speed_blended)
qed

lemma effective_stats_85: "effective_observation_count stats_85 = 50"
  by (simp add: effective_observation_count_def stats_85_def SegmentStatistics_init_def)

lemma weight_stats_85: "compute_learned_weight BlendConfig_default stats_85 = 0.3"
  by (simp add: compute_learned_weight_def effective_stats_85 BlendConfig_default_def Let_def)

lemma learned_stats_85: "get_learned_entry_speed stats_85 100 = 89"
  by (simp add: get_learned_entry_speed_def has_sufficient_data_def effective_stats_85 Let_def)
     (simp add: stats_85_def SegmentStatistics_init_def)

lemma blend_stats_85:
  "blended_value (blend_corner_speed BlendConfig_default env_100 (Some stats_85)) = 96.535"
  by (simp add: blend_corner_speed_blended has_sufficient_data_def effective_stats_85
        weight_stats_85 corner_blend_eq)
     (simp add: env_100_def learned_stats_85 BlendConfig_default_def)

text \<open>
  Claim C1. For every corner-speed physics envelope with ceiling \<open>C\<close> and every
  segment-statistics value, absent ones included, the blended value that
  \<open>blend_corner_speed\<close> returns never exceeds \<open>C\<close>; and when the computed learned weight is
  positive and the learned speed is strictly below \<open>C\<close>, the blended value is strictly
  below \<open>C\<close>. The configuration is any one whose maximum learned influence and safety margin
  are not negative (the specification takes both in the unit interval).
\<close>

theorem C1_blend_corner_speed_ceiling:
  assumes "0 \<le> max_learned_influence cfg" and "0 \<le> learned_safety_margin cfg"
  shows "blended_value (blend_corner_speed cfg env stats) \<le> max_speed_kmh env
       \<and> (\<forall>s. stats = Some s \<and> 0 < compute_learned_weight cfg s
              \<and> get_learned_entry_speed s (max_speed_kmh env) < max_speed_kmh env
            \<longrightarrow> blended_value (blend_corner_speed cfg env stats) < max_speed_kmh env)"
  using blend_corner_speed_le [OF assms] blend_corner_speed_less [OF assms(2)]
  by blast

theorem C1_blend_corner_speed_ceiling_witness:
  "0 \<le> max_learned_influence BlendConfig_default
   \<and> 0 \<le> learned_safety_margin BlendConfig_default
   \<and> 0 < compute_learned_weight BlendConfig_default stats_85
   \<and> get_learned_entry_speed stats_85 (max_speed_kmh env_100) < max_speed_kmh env_100
   \<and> blended_value (blend_corner_speed BlendConfig_default env_100 (Some stats_85)) \<le> 100
   \<and> blended_value (blend_corner_speed BlendConfig_default env_100 (Some stats_85)) < 100"
proof -
  have a: "0 \<le> max_learned_influence BlendConfig_default"
    by (simp add: BlendConfig_default_def)
  have b: "0 \<le> learned_safety_margin BlendConfig_default"
    by (simp add: BlendConfig_default_def)
  have c: "0 < compute_learned_weight BlendConfig_default stats_85"
    by (simp add: weight_stats_85)
  have e: "max_speed_kmh env_100 = 100" by (simp add: env_100_def)
  have d: "get_learned_entry_speed stats_85 (max_speed_kmh env_100) < max_speed_kmh env_100"
    by (simp add: e learned_stats_85)
  from C1_blend_corner_speed_ceiling [OF a b, of env_100 "Some stats_85"] c d e
  show ?thesis using a b by auto
qed

subsection \<open>Bounds of the blend formula\<close>

text \<open>
  Claim C3, as stated: for every ceiling \<open>C\<close>, learned value \<open>L \<le> C\<close>, weight and margin
  in the unit interval, the blend computation yields \<open>L \<le> blended \<le> C\<close>. The lower bound
  fails: at \<open>C = 100\<close>, \<open>L = 80\<close>, \<open>w = 1\<close>, \<open>m = 1\<close> the result is 60.
\<close>

theorem C3_counterexample:
  "(80::real) \<le> 100 \<and> (0::real) \<le> 1 \<and> (1::real) \<le> 1
   \<and> corner_blend 100 80 1 1 = 60
   \<and> \<not> (80 \<le> corner_blend 100 80 1 1 \<and> corner_blend 100 80 1 1 \<le> 100)"
  by (simp add: corner_blend_eq)

text \<open>
  Claim C3, amended. The computation is \<open>C - (C - L) * w * (1 + m)\<close>. For every ceiling
  \<open>C\<close>, learned value \<open>L \<le> C\<close>, weight and margin in the unit interval, the result is at
  most \<open>C\<close>; it is at least \<open>L\<close> when \<open>w * (1 + m) \<le> 1\<close> (so for the default limits,
  \<open>w \<le> 0.30\<close> and \<open>m = 0.05\<close>), and at least \<open>2 * L - C\<close> in every case.
\<close>

theorem C3_corner_blend_bounds:
  assumes "L \<le> C" and "0 \<le> w" and "w \<le> 1" and "0 \<le> m" and "m \<le> 1"
  shows "corner_blend C L w m \<le> C
       \<and> (w * (1 + m) \<le> 1 \<longrightarrow> L \<le> corner_blend C L w m)
       \<and> 2 * L - C \<le> corner_blend C L w m"
proof -
  have up: "corner_blend C L w m \<le> C" using assms(1,2,4) by (rule corner_blend_le)
  have d: "0 \<le> C - L" using assms(1) by simp
  have lo: "L \<le> corner_blend C L w m" if h: "w * (1 + m) \<le> 1"
  proof -
    have "(C - L) * (w * (1 + m)) \<le> (C - L) * 1" using h d by (rule mult_left_mono)
    then show ?thesis by (simp add: corner_blend_eq)
  qed
  have "w * (1 + m) \<le> 1 * 2" using assms by (intro mult_mono) simp_all
  then have "(C - L) * (w * (1 + m)) \<le> (C - L) * 2" using d by (intro mult_left_mono) simp_all
  then have "2 * L - C \<le> corner_blend C L w m" by (simp add: corner_blend_eq)
  with up lo show ?thesis by blast
qed

theorem C3_corner_blend_bounds_witness:
  "(80::real) \<le> 100 \<and> (0::real) \<le> 0.3 \<and> (0.3::real) \<le> 1
   \<and> (0::real) \<le> 0.05 \<and> (0.05::real) \<le> 1
   \<and> (0.3::real) * (1 + 0.05) \<le> 1
   \<and> 80 \<le> corner_blend 100 80 0.3 0.05 \<and> corner_blend 100 80 0.3 0.05 \<le> 100"
  using C3_corner_blend_bounds [of 80 100 "0.3" "0.05"] by simp

subsection \<open>The brake-point blend and the store's accessor\<close>

lemma get_learned_brake_point_ge: "physics_minimum_m \<le> get_learned_brake_point s physics_minimum_m"
  by (simp add: get_learned_brake_point_def Let_def)

lemma blend_brake_point_not_limited:
  "\<not> was_physics_limited (blend_brake_point cfg env st)"
proof (cases st)
  case None
  then show ?thesis by (simp add: blend_brake_point_def Let_def)
next
  case (Some s)
  have "\<not> get_learned_brake_point s (minimum_brake_distance_m env) < minimum_brake_distance_m env"
    using get_learned_brake_point_ge [of "minimum_brake_distance_m env" s] by simp
  with Some show ?thesis by (simp add: blend_brake_point_def Let_def)
qed

lemma get_learned_brake_point_sufficient:
  "has_sufficient_data s \<Longrightarrow>
   get_learned_brake_point s physics_minimum_m =
     max (max (brake_point_latest_m s) (brake_point_mean_m s - brake_point_std_m s))
         physics_minimum_m"
  by (simp add: get_learned_brake_point_def Let_def)

lemma get_learned_brake_point_insufficient:
  "\<not> has_sufficient_data s \<Longrightarrow> get_learned_brake_point s physics_minimum_m = physics_minimum_m"
  by (simp add: get_learned_brake_point_def)

lemma blend_brake_point_learned_value:
  assumes "has_sufficient_data s"
  shows "learned_value (blend_brake_point cfg env (Some s)) =
         Some (get_learned_brake_point s (minimum_brake_distance_m env))"
proof -
  have "\<not> get_learned_brake_point s (minimum_brake_distance_m env) < minimum_brake_distance_m env"
    using get_learned_brake_point_ge [of "minimum_brake_distance_m env" s] by simp
  with assms show ?thesis by (simp add: blend_brake_point_def Let_def)
qed

text \<open>
  Claim C10. For every statistics value and every physics minimum distance,
  \<open>get_learned_brake_point\<close> returns the maximum of the conservative learned estimate (the
  larger of the latest observed point and mean minus one standard deviation) and the
  physics minimum when the statistics have sufficient data, and the physics minimum itself
  otherwise; in both cases a value at or above that minimum. So the learned point that
  \<open>blend_brake_point\<close> obtains from it (and reports as learned value) is never below the
  minimum, and the engine's branch for that case, the only one that sets
  \<open>was_physics_limited\<close>, is never taken.
\<close>

theorem C10_learned_brake_point_never_below_physics:
  "(has_sufficient_data s \<longrightarrow>
      get_learned_brake_point s physics_minimum_m =
        max (max (brake_point_latest_m s) (brake_point_mean_m s - brake_point_std_m s))
            physics_minimum_m)
   \<and> (\<not> has_sufficient_data s \<longrightarrow>
        get_learned_brake_point s physics_minimum_m = physics_minimum_m)
   \<and> physics_minimum_m \<le> get_learned_brake_point s physics_minimum_m
   \<and> \<not> get_learned_brake_point s physics_minimum_m < physics_minimum_m
   \<and> (has_sufficient_data s \<longrightarrow>
        learned_value (blend_brake_point cfg env (Some s)) =
          Some (get_learned_brake_point s (minimum_brake_distance_m env)))
   \<and> \<not> was_physics_limited (blend_brake_point cfg env st)"
  using get_learned_brake_point_ge [of physics_minimum_m s]
    get_learned_brake_point_sufficient [of s physics_minimum_m]
    get_learned_brake_point_insufficient [of s physics_minimum_m]
    blend_brake_point_learned_value [of s cfg env]
    blend_brake_point_not_limited [of cfg env st]
  by simp

lemma effective_stats_125: "effective_observation_count stats_125 = 10"
  by (simp add: effective_observation_count_def stats_125_def SegmentStatistics_init_def)

theorem C10_learned_brake_point_never_below_physics_witness:
  "has_sufficient_data stats_125
   \<and> get_learned_brake_point stats_125 80 = 125
   \<and> learned_value (blend_brake_point BlendConfig_default benv_80 (Some stats_125)) = Some 125
   \<and> \<not> was_physics_limited (blend_brake_point BlendConfig_default benv_80 (Some stats_125))
   \<and> \<not> has_sufficient_data stats_sparse
   \<and> get_learned_brake_point stats_sparse 80 = 80"
proof -
  have a: "has_sufficient_data stats_125"
    by (simp add: has_sufficient_data_def effective_stats_125)
  have b: "\<not> has_sufficient_data stats_sparse"
    by (simp add: has_sufficient_data_def effective_observation_count_def stats_sparse_def
          SegmentStatistics_init_def)
  have m: "max (max (brake_point_latest_m stats_125)
                    (brake_point_mean_m stats_125 - brake_point_std_m stats_125)) 80 = 125"
    by (simp add: stats_125_def SegmentStatistics_init_def)
  have e: "minimum_brake_distance_m benv_80 = 80" by (simp add: benv_80_def)
  from C10_learned_brake_point_never_below_physics
         [of stats_125 80 BlendConfig_default benv_80 "Some stats_125"] a m e
  have one: "get_learned_brake_point stats_125 80 = 125
     \<and> learned_value (blend_brake_point BlendConfig_default benv_80 (Some stats_125)) = Some 125
     \<and> \<not> was_physics_limited (blend_brake_point BlendConfig_default benv_80 (Some stats_125))"
    by simp
  from C10_learned_brake_point_never_below_physics
         [of stats_sparse 80 BlendConfig_default benv_80 None] b
  have two: "get_learned_brake_point stats_sparse 80 = 80" by blast
  from a b one two show ?thesis by blast
qed

lemma effective_stats_60: "effective_observation_count stats_60 = 10"
  by (simp add: effective_observation_count_def stats_60_def SegmentStatistics_init_def)

lemma weight_stats_60: "compute_learned_weight BlendConfig_default stats_60 = 21 / 170"
  by (simp add: compute_learned_weight_def effective_stats_60 BlendConfig_default_def Let_def)

lemma blend_brake_point_clamped:
  assumes "has_sufficient_data s"
    and "max (brake_point_latest_m s) (brake_point_mean_m s - brake_point_std_m s)
           < minimum_brake_distance_m env"
  shows "blend_brake_point cfg env (Some s) =
           \<lparr> blended_value = minimum_brake_distance_m env,
             physics_ceiling = minimum_brake_distance_m env,
             learned_value = Some (minimum_brake_distance_m env),
             learned_weight = compute_learned_weight cfg s,
             r_observation_count = observation_count s,
             was_physics_limited = False \<rparr>"
proof -
  have "get_learned_brake_point s (minimum_brake_distance_m env) = minimum_brake_distance_m env"
    using assms by (simp add: get_learned_brake_point_def Let_def max_def)
  with assms(1) show ?thesis by (simp add: blend_brake_point_def Let_def)
qed

text \<open>
  Claim C2, as stated: with a physics minimum of 80 m and a learned brake point of 60 m the
  engine returns 80 with learned weight 0 and \<open>was_physics_limited\<close> set. On statistics
  whose brake points are all at 60 m the engine does return 80, but with the computed
  weight \<open>21 / 170\<close> and the flag unset.
\<close>

theorem C2_counterexample:
  "max (brake_point_latest_m stats_60) (brake_point_mean_m stats_60 - brake_point_std_m stats_60) = 60
   \<and> minimum_brake_distance_m benv_80 = 80
   \<and> blended_value (blend_brake_point BlendConfig_default benv_80 (Some stats_60)) = 80
   \<and> learned_weight (blend_brake_point BlendConfig_default benv_80 (Some stats_60)) = 21 / 170
   \<and> \<not> was_physics_limited (blend_brake_point BlendConfig_default benv_80 (Some stats_60))
   \<and> \<not> (blended_value (blend_brake_point BlendConfig_default benv_80 (Some stats_60)) = 80
        \<and> learned_weight (blend_brake_point BlendConfig_default benv_80 (Some stats_60)) = 0
        \<and> was_physics_limited (blend_brake_point BlendConfig_default benv_80 (Some stats_60)))"
proof -
  have a: "has_sufficient_data stats_60"
    by (simp add: has_sufficient_data_def effective_stats_60)
  have m: "max (brake_point_latest_m stats_60)
             (brake_point_mean_m stats_60 - brake_point_std_m stats_60) = 60"
    by (simp add: stats_60_def SegmentStatistics_init_def)
  have e: "minimum_brake_distance_m benv_80 = 80" by (simp add: benv_80_def)
  have b: "max (brake_point_latest_m stats_60)
             (brake_point_mean_m stats_60 - brake_point_std_m stats_60)
           < minimum_brake_distance_m benv_80"
    by (simp add: m e)
  show ?thesis
    by (simp add: blend_brake_point_clamped [OF a b] m e weight_stats_60)
qed

text \<open>
  Claim C2, amended. If the statistics have sufficient data and their conservative learned
  brake estimate (the larger of the latest observed point and mean minus one standard
  deviation) is below the physics minimum, the store's accessor returns the physics minimum
  instead, and \<open>blend_brake_point\<close> returns the physics minimum as blended value and as
  learned value, with the computed learned weight and \<open>was_physics_limited\<close> unset.
\<close>

theorem C2_learned_brake_point_clamped_by_store:
  assumes "has_sufficient_data s"
    and "max (brake_point_latest_m s) (brake_point_mean_m s - brake_point_std_m s)
           < minimum_brake_distance_m env"
  shows "get_learned_brake_point s (minimum_brake_distance_m env) = minimum_brake_distance_m env
       \<and> blended_value (blend_brake_point cfg env (Some s)) = minimum_brake_distance_m env
       \<and> learned_value (blend_brake_point cfg env (Some s)) = Some (minimum_brake_distance_m env)
       \<and> learned_weight (blend_brake_point cfg env (Some s)) = compute_learned_weight cfg s
       \<and> \<not> was_physics_limited (blend_brake_point cfg env (Some s))"
proof -
  have "get_learned_brake_point s (minimum_brake_distance_m env) = minimum_brake_distance_m env"
    using assms by (simp add: get_learned_brake_point_def Let_def max_def)
  then show ?thesis by (simp add: blend_brake_point_clamped [OF assms])
qed

theorem C2_learned_brake_point_clamped_by_store_witness:
  "has_sufficient_data stats_60
   \<and> max (brake_point_latest_m stats_60) (brake_point_mean_m stats_60 - brake_point_std_m stats_60)
       < minimum_brake_distance_m benv_80
   \<and> blended_value (blend_brake_point BlendConfig_default benv_80 (Some stats_60)) = 80
   \<and> learned_value (blend_brake_point BlendConfig_default benv_80 (Some stats_60)) = Some 80
   \<and> learned_weight (blend_brake_point BlendConfig_default benv_80 (Some stats_60)) = 21 / 170
   \<and> \<not> was_physics_limited (blend_brake_point BlendConfig_default benv_80 (Some stats_60))"
proof -
  have a: "has_sufficient_data stats_60"
    by (simp add: has_sufficient_data_def effective_stats_60)
  have e: "minimum_brake_distance_m benv_80 = 80" by (simp add: benv_80_def)
  have b: "max (brake_point_latest_m stats_60)
             (brake_point_mean_m stats_60 - brake_point_std_m stats_60)
           < minimum_brake_distance_m benv_80"
    by (simp add: stats_60_def SegmentStatistics_init_def e)
  from C2_learned_brake_point_clamped_by_store [OF a b, of BlendConfig_default] a b
  show ?thesis by (simp add: e weight_stats_60)
qed

subsection \<open>The learned weight as a function of the effective count\<close>

lemma compute_learned_weight_below:
  "effective_observation_count s < real_of_int (min_observations_for_learning cfg)
   \<Longrightarrow> compute_learned_weight cfg s = 0"
  by (simp add: compute_learned_weight_def)

lemma compute_learned_weight_le_max:
  assumes "0 \<le> max_learned_influence cfg"
  shows "compute_learned_weight cfg s \<le> max_learned_influence cfg"
proof (cases "effective_observation_count s < real_of_int (min_observations_for_learning cfg)")
  case True
  with assms show ?thesis by (simp add: compute_learned_weight_def)
next
  case False
  have "min x 1 * max_learned_influence cfg \<le> 1 * max_learned_influence cfg" for x :: real
    using assms by (intro mult_right_mono) simp_all
  with False show ?thesis by (simp add: compute_learned_weight_def Let_def)
qed

lemma compute_learned_weight_full:
  assumes "min_observations_for_learning cfg \<le> observations_for_full_influence cfg"
    and "real_of_int (observations_for_full_influence cfg) \<le> effective_observation_count s"
  shows "compute_learned_weight cfg s = max_learned_influence cfg"
proof -
  have ge: "\<not> effective_observation_count s < real_of_int (min_observations_for_learning cfg)"
    using assms by linarith
  show ?thesis
  proof (cases "observations_for_full_influence cfg - min_observations_for_learning cfg \<le> 0")
    case True
    with ge show ?thesis by (simp add: compute_learned_weight_def Let_def)
  next
    case False
    then have pos: "0 < real_of_int (observations_for_full_influence cfg)
                         - real_of_int (min_observations_for_learning cfg)" by simp
    have "1 \<le> (effective_observation_count s - real_of_int (min_observations_for_learning cfg))
                / (real_of_int (observations_for_full_influence cfg)
                         - real_of_int (min_observations_for_learning cfg))"
      using pos assms(2) by (simp add: le_divide_eq)
    then have "min ((effective_observation_count s - real_of_int (min_observations_for_learning cfg))
                / (real_of_int (observations_for_full_influence cfg)
                         - real_of_int (min_observations_for_learning cfg))) 1 = 1"
      by simp
    with ge False show ?thesis by (simp add: compute_learned_weight_def Let_def)
  qed
qed

lemma compute_learned_weight_mono:
  assumes "0 \<le> max_learned_influence cfg"
    and "effective_observation_count s \<le> effective_observation_count s'"
  shows "compute_learned_weight cfg s \<le> compute_learned_weight cfg s'"
proof (cases "effective_observation_count s < real_of_int (min_observations_for_learning cfg)")
  case True
  then have "compute_learned_weight cfg s = 0" by (rule compute_learned_weight_below)
  with compute_learned_weight_nonneg [OF assms(1), of s'] show ?thesis by simp
next
  case False
  with assms(2)
  have ge': "\<not> effective_observation_count s' < real_of_int (min_observations_for_learning cfg)"
    by linarith
  show ?thesis
  proof (cases "observations_for_full_influence cfg - min_observations_for_learning cfg \<le> 0")
    case True
    with False ge' show ?thesis by (simp add: compute_learned_weight_def Let_def)
  next
    case ramp: False
    let ?r = "real_of_int (observations_for_full_influence cfg - min_observations_for_learning cfg)"
    let ?m = "real_of_int (min_observations_for_learning cfg)"
    from ramp have pos: "0 \<le> ?r" by simp
    have "effective_observation_count s - ?m \<le> effective_observation_count s' - ?m"
      using assms(2) by simp
    then have "(effective_observation_count s - ?m) / ?r \<le> (effective_observation_count s' - ?m) / ?r"
      using pos by (rule divide_right_mono)
    then have "min ((effective_observation_count s - ?m) / ?r) 1
             \<le> min ((effective_observation_count s' - ?m) / ?r) 1"
      by (simp add: min_le_iff_disj)
    then have "min ((effective_observation_count s - ?m) / ?r) 1 * max_learned_influence cfg
             \<le> min ((effective_observation_count s' - ?m) / ?r) 1 * max_learned_influence cfg"
      using assms(1) by (rule mult_right_mono)
    with False ge' ramp show ?thesis by (simp add: compute_learned_weight_def Let_def)
  qed
qed

text \<open>
  Claim C7. The learned weight is 0 for every effective count below the configured
  minimum; it is non-decreasing in the effective count and never exceeds the maximum
  learned influence (for a maximum influence that is not negative); and it equals the
  maximum learned influence for every count at or beyond the full-influence threshold (for
  a threshold not below the minimum). The default configuration has minimum 3, threshold
  20 and maximum influence 0.30.
\<close>

theorem C7_learned_weight_ramp:
  "(effective_observation_count s < real_of_int (min_observations_for_learning cfg)
      \<longrightarrow> compute_learned_weight cfg s = 0)
   \<and> (0 \<le> max_learned_influence cfg
        \<and> effective_observation_count s \<le> effective_observation_count s'
      \<longrightarrow> compute_learned_weight cfg s \<le> compute_learned_weight cfg s')
   \<and> (min_observations_for_learning cfg \<le> observations_for_full_influence cfg
        \<and> real_of_int (observations_for_full_influence cfg) \<le> effective_observation_count s
      \<longrightarrow> compute_learned_weight cfg s = max_learned_influence cfg)
   \<and> (0 \<le> max_learned_influence cfg
      \<longrightarrow> compute_learned_weight cfg s \<le> max_learned_influence cfg)"
  using compute_learned_weight_below [of s cfg] compute_learned_weight_mono [of cfg s s']
    compute_learned_weight_full [of cfg s] compute_learned_weight_le_max [of cfg s]
  by blast

lemma effective_stats_sparse: "effective_observation_count stats_sparse = 1"
  by (simp add: effective_observation_count_def stats_sparse_def SegmentStatistics_init_def)

theorem C7_learned_weight_ramp_witness:
  "effective_observation_count stats_sparse
      < real_of_int (min_observations_for_learning BlendConfig_default)
   \<and> compute_learned_weight BlendConfig_default stats_sparse = 0
   \<and> 0 \<le> max_learned_influence BlendConfig_default
   \<and> effective_observation_count stats_60 \<le> effective_observation_count stats_85
   \<and> compute_learned_weight BlendConfig_default stats_60
        \<le> compute_learned_weight BlendConfig_default stats_85
   \<and> min_observations_for_learning BlendConfig_default
        \<le> observations_for_full_influence BlendConfig_default
   \<and> real_of_int (observations_for_full_influence BlendConfig_default)
        \<le> effective_observation_count stats_85
   \<and> compute_learned_weight BlendConfig_default stats_85
        = max_learned_influence BlendConfig_default
   \<and> compute_learned_weight BlendConfig_default stats_60
        \<le> max_learned_influence BlendConfig_default"
proof -
  have a: "effective_observation_count stats_sparse
             < real_of_int (min_observations_for_learning BlendConfig_default)"
    by (simp add: effective_stats_sparse BlendConfig_default_def)
  have b: "0 \<le> max_learned_influence BlendConfig_default"
    by (simp add: BlendConfig_default_def)
  have c: "effective_observation_count stats_60 \<le> effective_observation_count stats_85"
    by (simp add: effective_stats_60 effective_stats_85)
  have d: "min_observations_for_learning BlendConfig_default
             \<le> observations_for_full_influence BlendConfig_default"
    by (simp add: BlendConfig_default_def)
  have e: "real_of_int (observations_for_full_influence BlendConfig_default)
             \<le> effective_observation_count stats_85"
    by (simp add: effective_stats_85 BlendConfig_default_def)
  from C7_learned_weight_ramp [of stats_sparse BlendConfig_default stats_sparse]
    C7_learned_weight_ramp [of stats_60 BlendConfig_default stats_85]
    C7_learned_weight_ramp [of stats_85 BlendConfig_default stats_85]
    a b c d e
  show ?thesis by blast
qed

section \<open>Properties of the store\<close>

lemma add_observation_rejected:
  "\<not> was_clean ob \<or> o_confidence ob < 0.7 \<Longrightarrow> add_observation store ob = Inr store"
  by (auto simp: add_observation_def)

lemma add_observations_rejected:
  "\<forall>ob \<in> set obs. \<not> was_clean ob \<or> o_confidence ob < 0.7
   \<Longrightarrow> add_observations store obs = Inr store"
  by (induction obs) (simp_all add: add_observation_rejected)

text \<open>An accepted observation, for comparison: the segment then has one observation.\<close>

lemma add_observation_clean:
  "(case add_observation (SegmentStatsStore_init 100) obs_clean of
      Inl err \<Rightarrow> None
    | Inr store \<Rightarrow> map_option observation_count (get_statistics store 1)) = Some 1"
  by (simp add: add_observation_def update_statistics_def SegmentStatsStore_init_def
        obs_clean_def obs_dirty_def get_statistics_def Let_def)

text \<open>
  Claim C6. For every observation that is not clean or whose confidence is below 0.7,
  \<open>add_observation\<close> returns the store it was given: no window entry is added and no
  statistics are created or recomputed. The same holds for any sequence of such
  observations; a store that has only ever received such observations is the empty store,
  which has neither statistics nor a window for any segment.
\<close>

theorem C6_rejected_observations_leave_store_unchanged:
  "(\<not> was_clean ob \<or> o_confidence ob < 0.7 \<longrightarrow> add_observation store ob = Inr store)
   \<and> ((\<forall>ob \<in> set obs. \<not> was_clean ob \<or> o_confidence ob < 0.7)
        \<longrightarrow> add_observations store obs = Inr store)
   \<and> ((\<forall>ob \<in> set obs. \<not> was_clean ob \<or> o_confidence ob < 0.7)
        \<longrightarrow> add_observations (SegmentStatsStore_init n) obs = Inr (SegmentStatsStore_init n)
          \<and> get_statistics (SegmentStatsStore_init n) sid = None
          \<and> observations_dict (SegmentStatsStore_init n) sid = None)"
  using add_observation_rejected [of ob store] add_observations_rejected [of obs]
  by (simp add: get_statistics_def SegmentStatsStore_init_def)

theorem C6_rejected_observations_leave_store_unchanged_witness:
  "\<not> was_clean obs_dirty \<and> o_confidence obs_low_confidence < 0.7
   \<and> add_observation (SegmentStatsStore_init 100) obs_dirty = Inr (SegmentStatsStore_init 100)
   \<and> add_observations (SegmentStatsStore_init 100) [obs_dirty, obs_low_confidence, obs_dirty]
       = Inr (SegmentStatsStore_init 100)
   \<and> get_statistics (SegmentStatsStore_init 100) 1 = None"
proof -
  have a: "\<not> was_clean obs_dirty" by (simp add: obs_dirty_def)
  have b: "o_confidence obs_low_confidence < 0.7"
    by (simp add: obs_low_confidence_def obs_dirty_def)
  have c: "\<forall>ob \<in> set [obs_dirty, obs_low_confidence, obs_dirty].
             \<not> was_clean ob \<or> o_confidence ob < 0.7"
    using a b by simp
  from C6_rejected_observations_leave_store_unchanged
         [of obs_dirty "SegmentStatsStore_init 100"
             "[obs_dirty, obs_low_confidence, obs_dirty]" 100 1] a b c
  show ?thesis by blast
qed

section \<open>Properties of the decay manager\<close>

lemma fold_mult_prod_list:
  "fold (\<lambda>factor combined. combined * factor) xs (a :: real) = a * prod_list xs"
  by (induction xs arbitrary: a) (simp_all add: mult.assoc)

lemma combine_decay_factors_prod:
  "decays \<noteq> [] \<Longrightarrow>
   combine_decay_factors cfg decays = max (prod_list (map snd decays)) (min_decay_factor cfg)"
  by (simp add: combine_decay_factors_def fold_mult_prod_list)

lemma update_conditions_store:
  assumes "previous_conditions mgr = Some prev" and "dm_stats mgr = Some store"
    and "fst (update_conditions mgr cur now) \<noteq> []"
  shows "dm_stats (snd (update_conditions mgr cur now)) =
         Some (apply_global_decay store
                 (combine_decay_factors (dm_config mgr) (fst (update_conditions mgr cur now))))"
  using assms by (simp add: update_conditions_def Let_def del: if_split cong: if_cong)

lemma update_conditions_weather:
  assumes "previous_conditions mgr = Some prev" and "is_dry cur \<noteq> is_dry prev"
  shows "\<exists>rest. fst (update_conditions mgr cur now)
           = (WEATHER_CHANGE, weather_change_decay (dm_config mgr)) # rest"
  using assms by (simp add: update_conditions_def Let_def del: if_split cong: if_cong)

lemma update_conditions_tire:
  assumes "previous_conditions mgr = Some prev" and "tire_compound cur \<noteq> tire_compound prev"
  shows "(TIRE_CHANGE, tire_change_decay (dm_config mgr)) \<in> set (fst (update_conditions mgr cur now))"
  using assms by (simp add: update_conditions_def Let_def del: if_split cong: if_cong)

text \<open>
  Claim C8. When \<open>update_conditions\<close> finds at least one trigger (and the manager has a
  previous snapshot and a store), the factor it applies to the store with
  \<open>apply_global_decay\<close> is the product of the triggered factors, floored at the configured
  minimum decay factor. With the default configuration, a weather change (factor 0)
  together with a tyre change (factor 0.3) applies the factor 0.1.
\<close>

theorem C8_combined_decay_is_floored_product:
  assumes "previous_conditions mgr = Some prev" and "dm_stats mgr = Some store"
    and "fst (update_conditions mgr cur now) \<noteq> []"
  shows "dm_stats (snd (update_conditions mgr cur now)) =
           Some (apply_global_decay store
                   (max (prod_list (map snd (fst (update_conditions mgr cur now))))
                        (min_decay_factor (dm_config mgr))))
       \<and> (dm_config mgr = DecayConfig_default \<and> is_dry cur \<noteq> is_dry prev
            \<and> tire_compound cur \<noteq> tire_compound prev
          \<longrightarrow> (WEATHER_CHANGE, 0) \<in> set (fst (update_conditions mgr cur now))
            \<and> (TIRE_CHANGE, 0.3) \<in> set (fst (update_conditions mgr cur now))
            \<and> dm_stats (snd (update_conditions mgr cur now))
                = Some (apply_global_decay store 0.1))"
proof -
  let ?t = "fst (update_conditions mgr cur now)"
  have main: "dm_stats (snd (update_conditions mgr cur now)) =
           Some (apply_global_decay store
                   (max (prod_list (map snd ?t)) (min_decay_factor (dm_config mgr))))"
    using update_conditions_store [OF assms] combine_decay_factors_prod [OF assms(3)]
    by simp
  have special: "(WEATHER_CHANGE, 0) \<in> set ?t \<and> (TIRE_CHANGE, 0.3) \<in> set ?t
            \<and> dm_stats (snd (update_conditions mgr cur now))
                = Some (apply_global_decay store 0.1)"
    if cfg: "dm_config mgr = DecayConfig_default" and w: "is_dry cur \<noteq> is_dry prev"
      and t: "tire_compound cur \<noteq> tire_compound prev"
  proof -
    from update_conditions_weather [OF assms(1) w, of now] cfg
    obtain rest where r: "?t = (WEATHER_CHANGE, 0) # rest"
      by (auto simp: DecayConfig_default_def)
    then have p: "prod_list (map snd ?t) = 0" by simp
    have tire: "(TIRE_CHANGE, 0.3) \<in> set ?t"
      using update_conditions_tire [OF assms(1) t, of now] cfg
      by (simp add: DecayConfig_default_def)
    have "min_decay_factor (dm_config mgr) = 0.1"
      using cfg by (simp add: DecayConfig_default_def)
    with main p have "dm_stats (snd (update_conditions mgr cur now))
                = Some (apply_global_decay store 0.1)" by simp
    with r tire show ?thesis by simp
  qed
  from main special show ?thesis by blast
qed

lemma triggered_manager_dry:
  "fst (update_conditions manager_dry cond_wet_new_tires 2000000)
     = [(WEATHER_CHANGE, 0), (TIRE_CHANGE, 0.3)]"
  by (simp add: update_conditions_def manager_dry_def cond_wet_new_tires_def cond_dry_def
        DecayConfig_default_def timedelta_minutes_def round_half_even_def Let_def)

theorem C8_combined_decay_is_floored_product_witness:
  "previous_conditions manager_dry = Some cond_dry
   \<and> dm_stats manager_dry = Some store_one
   \<and> fst (update_conditions manager_dry cond_wet_new_tires 2000000)
       = [(WEATHER_CHANGE, 0), (TIRE_CHANGE, 0.3)]
   \<and> dm_config manager_dry = DecayConfig_default
   \<and> is_dry cond_wet_new_tires \<noteq> is_dry cond_dry
   \<and> tire_compound cond_wet_new_tires \<noteq> tire_compound cond_dry
   \<and> dm_stats (snd (update_conditions manager_dry cond_wet_new_tires 2000000))
       = Some (apply_global_decay store_one 0.1)
   \<and> map_option decay_factor (stats_dict (apply_global_decay store_one 0.1) 1) = Some 0.1"
proof -
  have a: "previous_conditions manager_dry = Some cond_dry" by (simp add: manager_dry_def)
  have b: "dm_stats manager_dry = Some store_one" by (simp add: manager_dry_def)
  have c: "fst (update_conditions manager_dry cond_wet_new_tires 2000000) \<noteq> []"
    by (simp add: triggered_manager_dry)
  have d: "dm_config manager_dry = DecayConfig_default" by (simp add: manager_dry_def)
  have e: "is_dry cond_wet_new_tires \<noteq> is_dry cond_dry"
    by (simp add: cond_wet_new_tires_def cond_dry_def)
  have f: "tire_compound cond_wet_new_tires \<noteq> tire_compound cond_dry"
    by (simp add: cond_wet_new_tires_def cond_dry_def)
  have g: "map_option decay_factor (stats_dict (apply_global_decay store_one 0.1) 1) = Some 0.1"
    by (simp add: apply_global_decay_def store_one_def)
  from C8_combined_decay_is_floored_product [OF a b c] d e f
  have h: "dm_stats (snd (update_conditions manager_dry cond_wet_new_tires 2000000))
             = Some (apply_global_decay store_one 0.1)"
    by blast
  from a b d e f g h triggered_manager_dry show ?thesis by blast
qed

section \<open>Properties of the corner-speed envelope\<close>

lemma post_init_ceiling:
  "envelope_speed_kmh (CornerSpeedEnvelope_post_init e)
     \<le> pc_value (physics_ceiling_kmh (CornerSpeedEnvelope_post_init e))"
  by (simp add: CornerSpeedEnvelope_post_init_def)

lemma blend_with_learned_ceiling:
  "envelope_speed_kmh (blend_with_learned e l w)
     \<le> pc_value (physics_ceiling_kmh (blend_with_learned e l w))"
  unfolding blend_with_learned_def Let_def by (rule post_init_ceiling)

lemma blend_with_learned_same_ceiling:
  "physics_ceiling_kmh (blend_with_learned e l w) = physics_ceiling_kmh e"
  by (simp add: blend_with_learned_def CornerSpeedEnvelope_post_init_def Let_def)

lemma update_from_learning_preserves:
  assumes inv: "\<forall>k se cs. segment_envelopes mgr k = Some se \<and> corner_speed se = Some cs
                  \<longrightarrow> envelope_speed_kmh cs \<le> pc_value (physics_ceiling_kmh cs)"
    and look: "segment_envelopes (snd (update_from_learning mgr sid l w)) k = Some se"
    and cs: "corner_speed se = Some cs"
  shows "envelope_speed_kmh cs \<le> pc_value (physics_ceiling_kmh cs)"
proof (cases "segment_envelopes mgr sid")
  case None
  with look have "segment_envelopes mgr k = Some se" by (simp add: update_from_learning_def)
  with inv cs show ?thesis by blast
next
  case (Some envelope)
  show ?thesis
  proof (cases "corner_speed envelope")
    case None
    with Some look have "segment_envelopes mgr k = Some se"
      by (simp add: update_from_learning_def)
    with inv cs show ?thesis by blast
  next
    case old: (Some c0)
    show ?thesis
    proof (cases "k = sid")
      case True
      with Some old look cs have "cs = blend_with_learned c0 l w"
        by (auto simp: update_from_learning_def Let_def)
      then show ?thesis by (simp add: blend_with_learned_ceiling)
    next
      case False
      with Some old look have "segment_envelopes mgr k = Some se"
        by (simp add: update_from_learning_def Let_def)
      with inv cs show ?thesis by blast
    qed
  qed
qed

text \<open>
  Claim C4. For every \<open>CornerSpeedEnvelope\<close> the envelope speed is at most the value of the
  physics ceiling right after construction; the envelope that \<open>blend_with_learned\<close>
  returns has the same ceiling and an envelope speed at most its value, for every learned
  speed and blend weight; and \<open>update_from_learning\<close> keeps the bound for every corner
  envelope the manager holds.
\<close>

theorem C4_envelope_speed_never_exceeds_ceiling:
  "envelope_speed_kmh (CornerSpeedEnvelope_post_init e)
     \<le> pc_value (physics_ceiling_kmh (CornerSpeedEnvelope_post_init e))
   \<and> envelope_speed_kmh (blend_with_learned e l w)
       \<le> pc_value (physics_ceiling_kmh (blend_with_learned e l w))
   \<and> physics_ceiling_kmh (blend_with_learned e l w) = physics_ceiling_kmh e
   \<and> ((\<forall>k se cs. segment_envelopes mgr k = Some se \<and> corner_speed se = Some cs
            \<longrightarrow> envelope_speed_kmh cs \<le> pc_value (physics_ceiling_kmh cs))
        \<longrightarrow> (\<forall>k se cs. segment_envelopes (snd (update_from_learning mgr sid l w)) k = Some se
                  \<and> corner_speed se = Some cs
            \<longrightarrow> envelope_speed_kmh cs \<le> pc_value (physics_ceiling_kmh cs)))"
  using post_init_ceiling [of e] blend_with_learned_ceiling [of e l w]
    blend_with_learned_same_ceiling [of e l w] update_from_learning_preserves [of mgr sid l w]
  by blast

lemma corner_env_fields:
  "envelope_speed_kmh corner_env = 85" "physics_ceiling_kmh corner_env = ceiling_100"
  "conservative_speed_kmh corner_env = 85"
  by (simp_all add: corner_env_def CornerSpeedEnvelope_post_init_def ceiling_100_def)

lemma blend_corner_env:
  "envelope_speed_kmh (blend_with_learned corner_env 200 0.5) = 100"
  by (simp add: blend_with_learned_def CornerSpeedEnvelope_post_init_def Let_def
        corner_env_fields ceiling_100_def)

lemma updated_env_manager:
  "segment_envelopes (snd (update_from_learning env_manager 1 200 0.5)) 1
     = Some (segment_env \<lparr> corner_speed := Some (blend_with_learned corner_env 200 0.5) \<rparr>)"
  by (simp add: update_from_learning_def env_manager_def segment_env_def Let_def)

theorem C4_envelope_speed_never_exceeds_ceiling_witness:
  "envelope_speed_kmh corner_env \<le> pc_value (physics_ceiling_kmh corner_env)
   \<and> segment_envelopes (snd (update_from_learning env_manager 1 200 0.5)) 1
       = Some (segment_env \<lparr> corner_speed := Some (blend_with_learned corner_env 200 0.5) \<rparr>)
   \<and> envelope_speed_kmh (blend_with_learned corner_env 200 0.5) = 100
   \<and> envelope_speed_kmh (blend_with_learned corner_env 200 0.5)
       \<le> pc_value (physics_ceiling_kmh (blend_with_learned corner_env 200 0.5))"
proof -
  have a: "envelope_speed_kmh corner_env \<le> pc_value (physics_ceiling_kmh corner_env)"
    by (simp add: corner_env_fields ceiling_100_def)
  have inv: "\<forall>k se cs. segment_envelopes env_manager k = Some se \<and> corner_speed se = Some cs
               \<longrightarrow> envelope_speed_kmh cs \<le> pc_value (physics_ceiling_kmh cs)"
    using a by (auto simp: env_manager_def segment_env_def split: if_splits)
  let ?se = "segment_env \<lparr> corner_speed := Some (blend_with_learned corner_env 200 0.5) \<rparr>"
  have cs: "corner_speed ?se = Some (blend_with_learned corner_env 200 0.5)" by simp
  from C4_envelope_speed_never_exceeds_ceiling [of corner_env 200 "0.5" env_manager 1] inv
  have "\<forall>k se cs. segment_envelopes (snd (update_from_learning env_manager 1 200 0.5)) k = Some se
                  \<and> corner_speed se = Some cs
            \<longrightarrow> envelope_speed_kmh cs \<le> pc_value (physics_ceiling_kmh cs)"
    by blast
  with updated_env_manager cs
  have "envelope_speed_kmh (blend_with_learned corner_env 200 0.5)
       \<le> pc_value (physics_ceiling_kmh (blend_with_learned corner_env 200 0.5))"
    by blast
  with a updated_env_manager blend_corner_env show ?thesis by blast
qed

section \<open>Properties of the friction circle\<close>

text \<open>
  What \<open>compute_grip_usage\<close> reports: the norm of the two normalised fractions, without
  the shape factors.
\<close>

lemma compute_grip_usage_total:
  assumes "compute_grip_usage cfg lg latg ml mlat = Inr e"
  shows "total_grip_used e = sqrt ((\<bar>lg\<bar> / ml)\<^sup>2 + (\<bar>latg\<bar> / mlat)\<^sup>2)"
  using assms
  by (auto simp: compute_grip_usage_def total_grip_used_def PhysicsCeiling_init_def Let_def
        split: if_splits)

lemma friction_circle_scenario:
  "(case compute_grip_usage FrictionCircleConfig_default 0.6 0.8 1 1 of
      Inl err \<Rightarrow> None | Inr e \<Rightarrow> Some (total_grip_used e)) = Some 1"
  by (simp add: compute_grip_usage_def total_grip_used_def PhysicsCeiling_init_def
        FrictionCircleConfig_default_def Let_def power2_eq_square)

text \<open>
  Claim C9 says that the reported total grip usage is the norm of the two shaped
  fractions. With a longitudinal shape factor of one half, a longitudinal acceleration of
  1 g against a maximum of 1 g and no lateral acceleration, the reported total is 1 and the
  shaped total is 2.
\<close>

theorem C9_reported_total_ignores_shape_factors:
  "(case compute_grip_usage fc_config_half 1 0 1 1.2 of
      Inl err \<Rightarrow> None | Inr e \<Rightarrow> Some (total_grip_used e)) = Some 1
   \<and> spec_shaped_total fc_config_half 1 0 1 1.2 = 2"
  by (simp add: compute_grip_usage_def total_grip_used_def PhysicsCeiling_init_def
        spec_shaped_total_def fc_config_half_def FrictionCircleConfig_default_def Let_def)

end
